theory Spec2Isabelle
  imports Main "HOL-Library.State_Monad"
begin

section \<open>JSON values and HTTP responses\<close>

text \<open>
  The handlers of \<^verbatim>\<open>server.py\<close> build Python dictionaries and hand them to
  \<^verbatim>\<open>jsonify\<close>. A response is modelled as the JSON value that is serialised together
  with the HTTP status: \<^verbatim>\<open>return jsonify(d)\<close> is \<open>(d, 200)\<close> and
  \<^verbatim>\<open>return jsonify(d), 400\<close> is \<open>(d, 400)\<close>. An object keeps its fields in the
  order the source writes them.
\<close>

datatype json =
    JInt int
  | JStr string
  | JList "json list"
  | JObj "(string \<times> json) list"

type_synonym response = "json \<times> nat"

section \<open>Decimal text of integers\<close>

text \<open>
  \<^verbatim>\<open>str(n)\<close> of a Python integer, as used by the f-string of the not-found message and
  by the JSON encoder when it writes the integer keys of a dictionary: decimal digits, most
  significant first, no leading zero, a leading minus sign for a negative number.
\<close>

definition digit_char :: "nat \<Rightarrow> char" where
  "digit_char d = char_of (48 + d)"

function str_nat :: "nat \<Rightarrow> string" where
  "str_nat n = (if n < 10 then [digit_char n] else str_nat (n div 10) @ [digit_char (n mod 10)])"
  by pat_completeness auto
termination
  by (relation "measure id") auto

declare str_nat.simps [simp del]

definition str_int :: "int \<Rightarrow> string" where
  "str_int i = (if i < 0 then CHR ''-'' # str_nat (nat (- i)) else str_nat (nat i))"

section \<open>Query arguments\<close>

text \<open>
  \<^verbatim>\<open>request.args\<close> is a multi-dictionary of the decoded query string: a list of
  key/value pairs in which \<^verbatim>\<open>get\<close> answers with the first value of a key. With
  \<^verbatim>\<open>type=int\<close> the value is passed through the conversion, and a conversion that
  raises \<^verbatim>\<open>ValueError\<close> gives the default \<^verbatim>\<open>None\<close>, exactly as an absent
  key does.
\<close>

type_synonym args = "(string \<times> string) list"

definition args_get :: "args \<Rightarrow> string \<Rightarrow> (string \<Rightarrow> 'a option) \<Rightarrow> 'a option" where
  "args_get a key conv = (case map_of a key of None \<Rightarrow> None | Some v \<Rightarrow> conv v)"

text \<open>
  Python's \<^verbatim>\<open>int(text)\<close> in base ten on ASCII text: surrounding whitespace
  (tab, line feed, vertical tab, form feed, carriage return, space) is stripped, one sign
  may lead, and the digits may be grouped by single underscores. \<open>None\<close> stands for the
  \<^verbatim>\<open>ValueError\<close>. Two things are left out: characters beyond ASCII (Python also
  reads the decimal digits and the spaces of other scripts), and the interpreter's
  configurable limit on the number of digits (by default a \<^verbatim>\<open>ValueError\<close> above
  4300 digits since Python 3.11). The theorems below speak of the argument through the
  result of this conversion, so they do not depend on either.
\<close>

definition is_space :: "char \<Rightarrow> bool" where
  "is_space c = (c \<in> set [CHR 0x09, CHR 0x0A, CHR 0x0B, CHR 0x0C, CHR 0x0D, CHR '' ''])"

definition is_digit :: "char \<Rightarrow> bool" where
  "is_digit c = (48 \<le> (of_char c :: nat) \<and> (of_char c :: nat) \<le> 57)"

definition digit_val :: "char \<Rightarrow> nat" where
  "digit_val c = of_char c - 48"

definition strip :: "string \<Rightarrow> string" where
  "strip s = rev (dropWhile is_space (rev (dropWhile is_space s)))"

fun digits_acc :: "nat \<Rightarrow> string \<Rightarrow> nat option" where
  "digits_acc acc [] = Some acc"
| "digits_acc acc [c] = (if is_digit c then Some (10 * acc + digit_val c) else None)"
| "digits_acc acc (c # d # cs) =
     (if is_digit c then digits_acc (10 * acc + digit_val c) (d # cs)
      else if c = CHR ''_'' \<and> is_digit d then digits_acc (10 * acc + digit_val d) cs
      else None)"

definition parse_digits :: "string \<Rightarrow> nat option" where
  "parse_digits s =
     (case s of [] \<Rightarrow> None
      | c # cs \<Rightarrow> if is_digit c then digits_acc (digit_val c) cs else None)"

definition py_int :: "string \<Rightarrow> int option" where
  "py_int s =
     (case strip s of [] \<Rightarrow> None
      | c # cs \<Rightarrow>
          if c = CHR ''-'' then map_option (\<lambda>n. - int n) (parse_digits cs)
          else if c = CHR ''+'' then map_option int (parse_digits cs)
          else map_option int (parse_digits (c # cs)))"

section \<open>The song catalog\<close>

record song =
  name :: string
  frequencies :: "int list"
  durations :: "int list"

text \<open>
  The catalog is a Python dictionary from station number to song. It is kept as the list
  of its items in insertion order; \<^verbatim>\<open>SONGS.get(k)\<close> is \<open>map_of\<close>,
  \<^verbatim>\<open>SONGS.items()\<close> is the list itself and \<^verbatim>\<open>len(SONGS)\<close> its length. The
  keys of a dictionary are distinct.
\<close>

type_synonym catalog = "(int \<times> song) list"

definition SONGS :: catalog where
  "SONGS = [
    (0, \<lparr>name = ''C Major Scale'',
         frequencies = [262, 294, 330, 349, 392, 440, 494, 523],
         durations = [500, 500, 500, 500, 500, 500, 500, 500]\<rparr>),
    (1, \<lparr>name = ''Twinkle Twinkle Little Star'',
         frequencies = [262, 262, 392, 392, 440, 440, 392, 349, 349, 330, 330, 294, 294, 262],
         durations = [500, 500, 500, 500, 500, 500, 1000, 500, 500, 500, 500, 500, 500, 1000]\<rparr>),
    (2, \<lparr>name = ''Happy Birthday'',
         frequencies = [262, 262, 294, 262, 349, 330, 262, 262, 294, 262, 392, 349, 262, 262, 523, 440, 349, 330, 294],
         durations = [250, 250, 500, 500, 500, 1000, 250, 250, 500, 500, 500, 1000, 250, 250, 500, 500, 500, 500, 1000]\<rparr>),
    (3, \<lparr>name = ''Jingle Bells'',
         frequencies = [330, 330, 330, 330, 330, 330, 330, 392, 262, 294, 330, 349, 349, 349, 349, 349, 330, 330, 330, 294, 294, 330, 294, 392],
         durations = [500, 500, 1000, 500, 500, 1000, 500, 500, 500, 500, 2000, 500, 500, 500, 500, 500, 500, 500, 250, 250, 500, 500, 500, 500]\<rparr>),
    (4, \<lparr>name = ''Mario Theme'',
         frequencies = [659, 659, 0, 659, 0, 523, 659, 0, 784, 0, 392, 0, 523, 0, 392, 0, 330, 0, 440, 0, 494, 0, 466, 0, 392, 0, 659, 0, 784, 0, 880, 0, 698, 0, 784, 0, 659, 0, 523, 0, 587, 0, 494],
         durations = [150, 300, 150, 300, 300, 300, 300, 300, 300, 300, 300, 150, 300, 150, 300, 300, 300, 300, 300, 150, 300, 150, 300, 300, 300, 300, 300, 300, 300, 300, 300, 300, 300, 150, 300, 150, 300, 300, 300, 300, 300, 300, 300]\<rparr>),
    (5, \<lparr>name = ''Star Wars Theme'',
         frequencies = [440, 440, 440, 349, 523, 440, 349, 523, 440, 659, 659, 659, 698, 523, 415, 349, 523, 440],
         durations = [500, 500, 500, 350, 150, 500, 350, 150, 650, 500, 500, 500, 350, 150, 500, 350, 150, 650]\<rparr>),
    (6, \<lparr>name = ''Fur Elise'',
         frequencies = [659, 622, 659, 622, 659, 494, 587, 523, 440, 0, 262, 330, 440, 494, 0, 330, 415, 494, 523, 0, 330, 440, 523, 587],
         durations = [200, 200, 200, 200, 200, 200, 200, 200, 400, 200, 200, 200, 200, 400, 200, 200, 200, 200, 400, 200, 200, 200, 200, 400]\<rparr>),
    (7, \<lparr>name = ''Ode to Joy'',
         frequencies = [392, 392, 440, 392, 523, 494, 392, 392, 440, 392, 349, 330, 392, 392, 440, 392, 523, 494, 440, 349, 349, 330, 294, 262],
         durations = [500, 500, 500, 500, 500, 1000, 500, 500, 500, 500, 500, 1000, 500, 500, 500, 500, 500, 1000, 500, 500, 500, 500, 500, 1000]\<rparr>),
    (8, \<lparr>name = ''Canon in D'',
         frequencies = [294, 330, 349, 392, 440, 392, 349, 330, 294, 330, 349, 392, 440, 494, 523, 494, 440, 392],
         durations = [600, 600, 600, 600, 600, 600, 600, 600, 1200, 600, 600, 600, 600, 600, 600, 600, 600, 1200]\<rparr>),
    (9, \<lparr>name = ''Chromatic Scale'',
         frequencies = [262, 277, 294, 311, 330, 349, 370, 392, 415, 440, 466, 494, 523],
         durations = [400, 400, 400, 400, 400, 400, 400, 400, 400, 400, 400, 400, 400]\<rparr>)]"

section \<open>The three endpoints\<close>

text \<open>
  The handlers read the module-level \<^verbatim>\<open>SONGS\<close>; the model takes the catalog they read
  as an argument. A song is a record, so reading its fields cannot fail and the
  \<^verbatim>\<open>except Exception\<close> clause of \<^verbatim>\<open>get_song\<close> (status 500) has no branch here.
\<close>

definition get_song :: "catalog \<Rightarrow> args \<Rightarrow> response" where
  "get_song songs a =
     (case args_get a ''station'' py_int of
        None \<Rightarrow> (JObj [(''error'', JStr ''Missing station parameter'')], 400)
      | Some station \<Rightarrow>
          if station < 0 \<or> station > 9 then
            (JObj [(''error'', JStr ''Station must be between 0 and 9'')], 400)
          else
            (case map_of songs station of
               None \<Rightarrow> (JObj [(''error'', JStr (''Station '' @ str_int station @ '' not found''))], 404)
             | Some song_data \<Rightarrow>
                 (JObj [(''frequencies'', JList (map JInt (frequencies song_data))),
                        (''durations'', JList (map JInt (durations song_data)))], 200)))"

text \<open>
  The dictionary comprehension of \<^verbatim>\<open>list_stations\<close>, whose keys are still integers,
  and the response, in which the JSON encoder has written each key as text.
\<close>

definition stations_info :: "catalog \<Rightarrow> (int \<times> json) list" where
  "stations_info songs = map (\<lambda>(station, s). (station, JObj [(''name'', JStr (name s))])) songs"

definition list_stations :: "catalog \<Rightarrow> response" where
  "list_stations songs = (JObj (map (\<lambda>(k, v). (str_int k, v)) (stations_info songs)), 200)"

definition health :: "catalog \<Rightarrow> response" where
  "health songs = (JObj [(''status'', JStr ''ok''), (''stations'', JInt (int (length songs)))], 200)"

section \<open>Serving requests\<close>

text \<open>
  The application routes a GET request to \<^verbatim>\<open>/song\<close>, \<^verbatim>\<open>/stations\<close> or
  \<^verbatim>\<open>/health\<close> to its handler. \<open>dispatch\<close> gives the response of a request together
  with the catalog the process holds afterwards.
\<close>

datatype request = GetSong args | ListStations | Health

definition dispatch :: "request \<Rightarrow> catalog \<Rightarrow> response \<times> catalog" where
  "dispatch r songs =
     (case r of
        GetSong a \<Rightarrow> (get_song songs a, songs)
      | ListStations \<Rightarrow> (list_stations songs, songs)
      | Health \<Rightarrow> (health songs, songs))"

text \<open>
  The same handlers as they run in the process, written statement by statement over the
  process state. The state is the module-level \<^verbatim>\<open>SONGS\<close>; the only accesses of the
  source are the reads \<^verbatim>\<open>SONGS.get(station)\<close>, \<^verbatim>\<open>SONGS.items()\<close> and
  \<^verbatim>\<open>len(SONGS)\<close>. A handler is a computation that is given the state and the request
  and returns a response and the state it leaves behind.
\<close>

definition songs_get :: "int \<Rightarrow> (catalog, song option) state" where
  "songs_get station = do {
     songs \<leftarrow> State_Monad.get;
     State_Monad.return (map_of songs station)
   }"

definition songs_items :: "(catalog, (int \<times> song) list) state" where
  "songs_items = State_Monad.get"

definition songs_len :: "(catalog, int) state" where
  "songs_len = do {
     songs \<leftarrow> State_Monad.get;
     State_Monad.return (int (length songs))
   }"

definition get_song_st :: "args \<Rightarrow> (catalog, response) state" where
  "get_song_st a =
     (case args_get a ''station'' py_int of
        None \<Rightarrow> State_Monad.return (JObj [(''error'', JStr ''Missing station parameter'')], 400)
      | Some station \<Rightarrow>
          if station < 0 \<or> station > 9 then
            State_Monad.return (JObj [(''error'', JStr ''Station must be between 0 and 9'')], 400)
          else do {
            song_data \<leftarrow> songs_get station;
            (case song_data of
               None \<Rightarrow>
                 State_Monad.return
                   (JObj [(''error'', JStr (''Station '' @ str_int station @ '' not found''))], 404)
             | Some sd \<Rightarrow>
                 State_Monad.return
                   (JObj [(''frequencies'', JList (map JInt (frequencies sd))),
                          (''durations'', JList (map JInt (durations sd)))], 200))
          })"

definition list_stations_st :: "(catalog, response) state" where
  "list_stations_st = do {
     items \<leftarrow> songs_items;
     State_Monad.return
       (JObj (map (\<lambda>(k, v). (str_int k, v))
                (map (\<lambda>(station, s). (station, JObj [(''name'', JStr (name s))])) items)), 200)
   }"

definition health_st :: "(catalog, response) state" where
  "health_st = do {
     n \<leftarrow> songs_len;
     State_Monad.return (JObj [(''status'', JStr ''ok''), (''stations'', JInt n)], 200)
   }"

definition handle :: "request \<Rightarrow> (catalog, response) state" where
  "handle r =
     (case r of
        GetSong a \<Rightarrow> get_song_st a
      | ListStations \<Rightarrow> list_stations_st
      | Health \<Rightarrow> health_st)"

fun serve :: "request list \<Rightarrow> catalog \<Rightarrow> response list \<times> catalog" where
  "serve [] songs = ([], songs)"
| "serve (r # rs) songs =
     (case run_state (handle r) songs of
        (resp, songs') \<Rightarrow> (case serve rs songs' of (resps, songs'') \<Rightarrow> (resp # resps, songs'')))"

section \<open>Reading a JSON document\<close>

text \<open>
  What the client in \<^verbatim>\<open>test_server.py\<close> does with a parsed response:
  \<^verbatim>\<open>data.keys()\<close> and \<^verbatim>\<open>data.get(key)\<close> on a JSON object.
\<close>

definition json_keys :: "json \<Rightarrow> string list" where
  "json_keys j = (case j of JObj members \<Rightarrow> map fst members | _ \<Rightarrow> [])"

definition json_get :: "json \<Rightarrow> string \<Rightarrow> json option" where
  "json_get j key = (case j of JObj members \<Rightarrow> map_of members key | _ \<Rightarrow> None)"

section \<open>Decimal text: writing and reading back\<close>

lemma digit_char_props: "d < 10 \<Longrightarrow> is_digit (digit_char d) \<and> digit_val (digit_char d) = d"
  by (simp add: digit_val_def digit_char_def is_digit_def)

lemma is_digit_not_space: "is_digit c \<Longrightarrow> \<not> is_space c"
  by (auto simp: is_digit_def is_space_def)

lemma is_digit_not_sign: "is_digit c \<Longrightarrow> c \<noteq> CHR ''-'' \<and> c \<noteq> CHR ''+''"
  by (auto simp: is_digit_def)

lemma str_nat_digits: "list_all is_digit (str_nat n) \<and> str_nat n \<noteq> []"
proof (induction n rule: str_nat.induct)
  case (1 n)
  show ?case
  proof (cases "n < 10")
    case True
    then show ?thesis by (simp add: str_nat.simps [of n] digit_char_props)
  next
    case False
    with 1 show ?thesis by (simp add: str_nat.simps [of n] digit_char_props)
  qed
qed

lemma digits_acc_all_digits:
  "list_all is_digit cs \<Longrightarrow>
   digits_acc acc cs = Some (foldl (\<lambda>a c. 10 * a + digit_val c) acc cs)"
  by (induction acc cs rule: digits_acc.induct) simp_all

lemma foldl_str_nat: "foldl (\<lambda>a c. 10 * a + digit_val c) 0 (str_nat n) = n"
proof (induction n rule: str_nat.induct)
  case (1 n)
  show ?case
  proof (cases "n < 10")
    case True
    then show ?thesis by (simp add: str_nat.simps [of n] digit_char_props)
  next
    case False
    with 1 show ?thesis by (simp add: str_nat.simps [of n] digit_char_props)
  qed
qed

lemma parse_digits_str_nat: "parse_digits (str_nat n) = Some n"
proof -
  obtain c cs where eq: "str_nat n = c # cs"
    using str_nat_digits [of n] by (cases "str_nat n") auto
  have dig: "is_digit c" "list_all is_digit cs"
    using str_nat_digits [of n] eq by auto
  have "foldl (\<lambda>a c. 10 * a + digit_val c) 0 (c # cs) = n"
    using foldl_str_nat [of n] eq by simp
  then show ?thesis
    using dig by (simp add: parse_digits_def eq digits_acc_all_digits)
qed

lemma strip_no_space:
  assumes "s \<noteq> []" "\<not> is_space (hd s)" "\<not> is_space (last s)"
  shows "strip s = s"
proof -
  have "dropWhile is_space s = s"
    using assms by (cases s) auto
  moreover have "dropWhile is_space (rev s) = rev s"
    using assms by (cases "rev s") (auto simp: last_rev hd_rev)
  ultimately show ?thesis by (simp add: strip_def)
qed

lemma strip_str_nat: "strip (str_nat n) = str_nat n"
proof -
  have ne: "str_nat n \<noteq> []" and all: "list_all is_digit (str_nat n)"
    using str_nat_digits [of n] by auto
  have "is_digit (hd (str_nat n))" "is_digit (last (str_nat n))"
    using ne all by (auto simp: list_all_iff)
  then show ?thesis
    using ne by (intro strip_no_space) (auto dest: is_digit_not_space)
qed

lemma strip_minus_str_nat: "strip (CHR ''-'' # str_nat n) = CHR ''-'' # str_nat n"
proof -
  have ne: "str_nat n \<noteq> []" and all: "list_all is_digit (str_nat n)"
    using str_nat_digits [of n] by auto
  have "is_digit (last (str_nat n))"
    using ne all by (auto simp: list_all_iff)
  then show ?thesis
    using ne by (intro strip_no_space) (auto dest: is_digit_not_space simp: is_space_def)
qed

text \<open>The text Python writes for an integer is read back by \<^verbatim>\<open>int\<close> as that integer.\<close>

lemma py_int_str_int: "py_int (str_int i) = Some i"
proof (cases "i < 0")
  case True
  then show ?thesis
    by (simp add: py_int_def str_int_def strip_minus_str_nat parse_digits_str_nat)
next
  case False
  obtain c cs where eq: "str_nat (nat i) = c # cs"
    using str_nat_digits [of "nat i"] by (cases "str_nat (nat i)") auto
  have "is_digit c"
    using str_nat_digits [of "nat i"] eq by auto
  then have "c \<noteq> CHR ''-''" "c \<noteq> CHR ''+''"
    by (auto dest: is_digit_not_sign)
  moreover have "strip (c # cs) = c # cs" "parse_digits (c # cs) = Some (nat i)"
    using strip_str_nat [of "nat i"] parse_digits_str_nat [of "nat i"] eq by auto
  ultimately show ?thesis
    using False by (simp add: py_int_def str_int_def eq)
qed

lemma str_int_inject: "str_int i = str_int j \<Longrightarrow> i = j"
  by (metis py_int_str_int option.inject)

lemma map_of_str_keys:
  "map_of (map (\<lambda>(k, v). (str_int k, g v)) xs) (str_int i) = map_option g (map_of xs i)"
  by (induction xs) (auto dest: str_int_inject)

section \<open>The branches of \<open>get_song\<close>\<close>

lemma args_get_None_iff:
  "args_get a key conv = None \<longleftrightarrow>
   map_of a key = None \<or> (\<exists>v. map_of a key = Some v \<and> conv v = None)"
  by (auto simp: args_get_def split: option.splits)

lemma args_get_Some_iff:
  "args_get a key conv = Some x \<longleftrightarrow> (\<exists>v. map_of a key = Some v \<and> conv v = Some x)"
  by (auto simp: args_get_def split: option.splits)

lemma get_song_missing:
  "args_get a ''station'' py_int = None \<Longrightarrow>
   get_song songs a = (JObj [(''error'', JStr ''Missing station parameter'')], 400)"
  by (simp add: get_song_def)

lemma get_song_range:
  "args_get a ''station'' py_int = Some i \<Longrightarrow> i < 0 \<or> 9 < i \<Longrightarrow>
   get_song songs a = (JObj [(''error'', JStr ''Station must be between 0 and 9'')], 400)"
  by (auto simp: get_song_def)

lemma get_song_not_found:
  "args_get a ''station'' py_int = Some i \<Longrightarrow> 0 \<le> i \<Longrightarrow> i \<le> 9 \<Longrightarrow>
   map_of songs i = None \<Longrightarrow>
   get_song songs a =
     (JObj [(''error'', JStr (''Station '' @ str_int i @ '' not found''))], 404)"
  by (simp add: get_song_def)

lemma get_song_found:
  "args_get a ''station'' py_int = Some i \<Longrightarrow> 0 \<le> i \<Longrightarrow> i \<le> 9 \<Longrightarrow>
   map_of songs i = Some s \<Longrightarrow>
   get_song songs a =
     (JObj [(''frequencies'', JList (map JInt (frequencies s))),
            (''durations'', JList (map JInt (durations s)))], 200)"
  by (simp add: get_song_def)

lemma get_song_status:
  "snd (get_song songs a) =
     (case args_get a ''station'' py_int of
        None \<Rightarrow> 400
      | Some i \<Rightarrow>
          if i < 0 \<or> 9 < i then 400
          else (case map_of songs i of None \<Rightarrow> 404 | Some s \<Rightarrow> 200))"
  by (simp add: get_song_def split: option.splits)

text \<open>Evaluating the query argument of a concrete request.\<close>

lemmas station_arg_eval =
  args_get_def py_int_def strip_def is_space_def parse_digits_def is_digit_def digit_val_def

section \<open>The default catalog\<close>

lemma SONGS_keys: "map fst SONGS = [0, 1, 2, 3, 4, 5, 6, 7, 8, 9]"
  by (simp add: SONGS_def)

lemma SONGS_in_range: "0 \<le> i \<Longrightarrow> i \<le> 9 \<Longrightarrow> i \<in> fst ` set SONGS"
proof -
  assume "0 \<le> i" "i \<le> 9"
  then have "i \<in> set [0, 1, 2, 3, 4, 5, 6, 7, 8, 9]" by (simp; presburger)
  then show ?thesis using SONGS_keys by (metis set_map)
qed

lemma SONGS_lookup: "0 \<le> i \<Longrightarrow> i \<le> 9 \<Longrightarrow> \<exists>s. map_of SONGS i = Some s"
  using SONGS_in_range [of i] by (metis map_of_eq_None_iff not_None_eq)

lemma SONGS_well_formed:
  "(i, s) \<in> set SONGS \<Longrightarrow>
   length (frequencies s) = length (durations s) \<and> durations s \<noteq> [] \<and>
   (\<forall>d\<in>set (durations s). 0 < d)"
  by (auto simp: SONGS_def)

section \<open>Further facts about the endpoints\<close>

lemma SONGS_distinct: "distinct (map fst SONGS)"
  by (simp add: SONGS_keys)

lemma SONGS_station_4:
  "map_of SONGS 4 = Some \<lparr>name = ''Mario Theme'',
     frequencies = [659, 659, 0, 659, 0, 523, 659, 0, 784, 0, 392, 0, 523, 0, 392, 0, 330, 0, 440, 0, 494, 0, 466, 0, 392, 0, 659, 0, 784, 0, 880, 0, 698, 0, 784, 0, 659, 0, 523, 0, 587, 0, 494],
     durations = [150, 300, 150, 300, 300, 300, 300, 300, 300, 300, 300, 150, 300, 150, 300, 300, 300, 300, 300, 150, 300, 150, 300, 300, 300, 300, 300, 300, 300, 300, 300, 300, 300, 150, 300, 150, 300, 300, 300, 300, 300, 300, 300]\<rparr>"
  by (simp add: SONGS_def)

lemma json_get_in_keys: "json_get j key = Some v \<Longrightarrow> key \<in> set (json_keys j)"
proof (cases j)
  case (JObj ms)
  assume "json_get j key = Some v"
  with JObj have "(key, v) \<in> set ms"
    by (auto simp: json_get_def dest: map_of_SomeD)
  then have "fst (key, v) \<in> fst ` set ms" by (rule imageI)
  with JObj show ?thesis by (simp add: json_keys_def)
qed (simp_all add: json_get_def)

lemma list_stations_keys:
  "json_keys (fst (list_stations songs)) = map (\<lambda>(i, s). str_int i) songs"
  by (simp add: list_stations_def stations_info_def json_keys_def case_prod_unfold)

lemma list_stations_get:
  "json_get (fst (list_stations songs)) (str_int i) =
   map_option (\<lambda>s. JObj [(''name'', JStr (name s))]) (map_of songs i)"
proof -
  have "map (\<lambda>(k, v). (str_int k, v)) (stations_info songs) =
        map (\<lambda>(k, s). (str_int k, JObj [(''name'', JStr (name s))])) songs"
    by (simp add: stations_info_def case_prod_unfold)
  then show ?thesis
    by (simp add: list_stations_def json_get_def map_of_str_keys)
qed

lemma str_int_digits:
  "str_int 0 = ''0''" "str_int 1 = ''1''" "str_int 2 = ''2''" "str_int 3 = ''3''"
  "str_int 4 = ''4''" "str_int 5 = ''5''" "str_int 6 = ''6''" "str_int 7 = ''7''"
  "str_int 8 = ''8''" "str_int 9 = ''9''"
  by (simp_all add: str_int_def str_nat.simps digit_char_def char_of_eq_iff)

lemma list_stations_SONGS:
  "list_stations SONGS =
     (JObj [(''0'', JObj [(''name'', JStr ''C Major Scale'')]),
            (''1'', JObj [(''name'', JStr ''Twinkle Twinkle Little Star'')]),
            (''2'', JObj [(''name'', JStr ''Happy Birthday'')]),
            (''3'', JObj [(''name'', JStr ''Jingle Bells'')]),
            (''4'', JObj [(''name'', JStr ''Mario Theme'')]),
            (''5'', JObj [(''name'', JStr ''Star Wars Theme'')]),
            (''6'', JObj [(''name'', JStr ''Fur Elise'')]),
            (''7'', JObj [(''name'', JStr ''Ode to Joy'')]),
            (''8'', JObj [(''name'', JStr ''Canon in D'')]),
            (''9'', JObj [(''name'', JStr ''Chromatic Scale'')])], 200)"
  by (simp add: list_stations_def stations_info_def SONGS_def str_int_digits)

text \<open>What the stateful handlers compute, and the state they leave.\<close>

lemma get_song_st_run: "run_state (get_song_st a) songs = (get_song songs a, songs)"
  by (simp add: get_song_st_def get_song_def songs_get_def split: option.splits)

lemma list_stations_st_run: "run_state list_stations_st songs = (list_stations songs, songs)"
  by (simp add: list_stations_st_def songs_items_def list_stations_def stations_info_def)

lemma health_st_run: "run_state health_st songs = (health songs, songs)"
  by (simp add: health_st_def songs_len_def health_def)

lemma handle_dispatch: "run_state (handle r) songs = dispatch r songs"
  by (cases r)
    (simp_all add: handle_def dispatch_def get_song_st_run list_stations_st_run health_st_run)

lemma handle_state: "snd (run_state (handle r) songs) = songs"
  by (cases r) (simp_all add: handle_def get_song_st_run list_stations_st_run health_st_run)

lemma serve_responses:
  "serve rs songs = (map (\<lambda>r. fst (run_state (handle r) songs)) rs, songs)"
  by (induction rs) (simp_all add: handle_dispatch dispatch_def split: request.splits)

lemma get_song_same_station:
  "args_get a ''station'' py_int = args_get b ''station'' py_int \<Longrightarrow>
   get_song songs a = get_song songs b"
  by (simp add: get_song_def)

section \<open>Song lookup on the default catalog\<close>

text \<open>
  Claim C1. For every station number from 0 to 9, a request whose \<^verbatim>\<open>station\<close>
  argument reads as that number is answered from the default catalog with status 200 and
  the frequencies and durations of the stored song; the two lists have the same length,
  they are not empty, and every duration is strictly positive.
\<close>

theorem get_song_default_catalog:
  assumes "args_get a ''station'' py_int = Some i" "0 \<le> i" "i \<le> 9"
  shows "\<exists>s. map_of SONGS i = Some s \<and>
           get_song SONGS a =
             (JObj [(''frequencies'', JList (map JInt (frequencies s))),
                    (''durations'', JList (map JInt (durations s)))], 200) \<and>
           length (frequencies s) = length (durations s) \<and>
           0 < length (durations s) \<and>
           (\<forall>d\<in>set (durations s). 0 < d)"
proof -
  obtain s where s: "map_of SONGS i = Some s"
    using SONGS_lookup assms(2,3) by blast
  then have "(i, s) \<in> set SONGS" by (rule map_of_SomeD)
  then have "length (frequencies s) = length (durations s)" "durations s \<noteq> []"
    "\<forall>d\<in>set (durations s). 0 < d"
    using SONGS_well_formed by blast+
  with s get_song_found [OF assms s] show ?thesis by simp
qed

theorem get_song_default_catalog_witness:
  "args_get [(''station'', ''9'')] ''station'' py_int = Some 9 \<and>
   (\<exists>s. map_of SONGS 9 = Some s \<and>
        get_song SONGS [(''station'', ''9'')] =
          (JObj [(''frequencies'', JList (map JInt (frequencies s))),
                 (''durations'', JList (map JInt (durations s)))], 200) \<and>
        length (frequencies s) = length (durations s) \<and>
        0 < length (durations s) \<and>
        (\<forall>d\<in>set (durations s). 0 < d))"
proof -
  have arg: "args_get [(''station'', ''9'')] ''station'' py_int = Some 9"
    by (simp add: station_arg_eval)
  from get_song_default_catalog [OF arg] arg show ?thesis by simp
qed

section \<open>Client errors of the song lookup\<close>

text \<open>
  Claim C2. The song lookup answers with status 400 and the message
  \<^verbatim>\<open>Missing station parameter\<close> exactly when the \<^verbatim>\<open>station\<close> argument is absent
  or its text is not read as an integer; it answers with status 400 and the message
  \<^verbatim>\<open>Station must be between 0 and 9\<close> exactly when the text is read as an integer below
  0 or above 9; and these are the only requests answered with status 400.
\<close>

theorem get_song_client_errors:
  "(get_song songs a = (JObj [(''error'', JStr ''Missing station parameter'')], 400) \<longleftrightarrow>
      map_of a ''station'' = None \<or> (\<exists>v. map_of a ''station'' = Some v \<and> py_int v = None)) \<and>
   (get_song songs a = (JObj [(''error'', JStr ''Station must be between 0 and 9'')], 400) \<longleftrightarrow>
      (\<exists>v i. map_of a ''station'' = Some v \<and> py_int v = Some i \<and> (i < 0 \<or> 9 < i))) \<and>
   (snd (get_song songs a) = 400 \<longleftrightarrow>
      map_of a ''station'' = None \<or>
      (\<exists>v. map_of a ''station'' = Some v \<and> (py_int v = None \<or> (\<exists>i. py_int v = Some i \<and> (i < 0 \<or> 9 < i)))))"
proof (cases "args_get a ''station'' py_int")
  case None
  then have "map_of a ''station'' = None \<or> (\<exists>v. map_of a ''station'' = Some v \<and> py_int v = None)"
    by (simp add: args_get_None_iff)
  moreover have "\<not> (\<exists>v i. map_of a ''station'' = Some v \<and> py_int v = Some i \<and> (i < 0 \<or> 9 < i))"
    using None by (auto simp: args_get_def split: option.splits)
  ultimately show ?thesis
    using get_song_missing [OF None, of songs] by auto
next
  case (Some i)
  then obtain v where v: "map_of a ''station'' = Some v" "py_int v = Some i"
    by (auto simp: args_get_Some_iff)
  show ?thesis
  proof (cases "i < 0 \<or> 9 < i")
    case True
    with get_song_range [OF Some True, of songs] v show ?thesis by auto
  next
    case False
    then have r: "0 \<le> i" "i \<le> 9" by auto
    show ?thesis
    proof (cases "map_of songs i")
      case None
      with get_song_not_found [OF Some r None] v False show ?thesis by auto
    next
      case (Some s)
      with get_song_found [OF \<open>args_get a ''station'' py_int = Some i\<close> r Some] v False
      show ?thesis by auto
    qed
  qed
qed

theorem get_song_client_errors_witness:
  "get_song SONGS [] = (JObj [(''error'', JStr ''Missing station parameter'')], 400) \<and>
   get_song SONGS [(''station'', ''abc'')] =
     (JObj [(''error'', JStr ''Missing station parameter'')], 400) \<and>
   get_song SONGS [(''station'', ''-1'')] =
     (JObj [(''error'', JStr ''Station must be between 0 and 9'')], 400) \<and>
   get_song SONGS [(''station'', ''10'')] =
     (JObj [(''error'', JStr ''Station must be between 0 and 9'')], 400) \<and>
   get_song SONGS [(''station'', ''5'')] \<noteq>
     (JObj [(''error'', JStr ''Station must be between 0 and 9'')], 400)"
  using get_song_client_errors [of SONGS "[]"]
    get_song_client_errors [of SONGS "[(''station'', ''abc'')]"]
    get_song_client_errors [of SONGS "[(''station'', ''-1'')]"]
    get_song_client_errors [of SONGS "[(''station'', ''10'')]"]
    get_song_client_errors [of SONGS "[(''station'', ''5'')]"]
  by (simp add: py_int_def strip_def is_space_def parse_digits_def is_digit_def digit_val_def)

section \<open>Order of validation\<close>

text \<open>
  Claim C3. The checks run in order: an absent or unreadable argument gives the
  missing-parameter response; an integer outside 0..9 gives the range response, never the
  missing-parameter one; only an integer inside 0..9 is looked up in the catalog. So for a
  request that fails either check the answer is the same whatever the catalog holds, even
  one with an entry under the out-of-range number.
\<close>

theorem get_song_validation_order:
  "(args_get a ''station'' py_int = None \<longrightarrow>
      get_song songs a = (JObj [(''error'', JStr ''Missing station parameter'')], 400)) \<and>
   (args_get a ''station'' py_int = Some i \<and> (i < 0 \<or> 9 < i) \<longrightarrow>
      get_song songs a = (JObj [(''error'', JStr ''Station must be between 0 and 9'')], 400) \<and>
      get_song songs a \<noteq> (JObj [(''error'', JStr ''Missing station parameter'')], 400)) \<and>
   (args_get a ''station'' py_int = Some i \<and> 0 \<le> i \<and> i \<le> 9 \<longrightarrow>
      get_song songs a =
        (case map_of songs i of
           None \<Rightarrow> (JObj [(''error'', JStr (''Station '' @ str_int i @ '' not found''))], 404)
         | Some s \<Rightarrow>
             (JObj [(''frequencies'', JList (map JInt (frequencies s))),
                    (''durations'', JList (map JInt (durations s)))], 200))) \<and>
   (args_get a ''station'' py_int = None \<or>
    (\<exists>n. args_get a ''station'' py_int = Some n \<and> (n < 0 \<or> 9 < n)) \<longrightarrow>
      get_song songs a = get_song songs' a)"
  by (auto simp: get_song_def split: option.splits)

theorem get_song_validation_order_witness:
  "get_song [(10, \<lparr>name = ''x'', frequencies = [440], durations = [100]\<rparr>)] [(''station'', ''10'')] =
     (JObj [(''error'', JStr ''Station must be between 0 and 9'')], 400) \<and>
   get_song [(10, \<lparr>name = ''x'', frequencies = [440], durations = [100]\<rparr>)] [(''station'', ''10'')] =
     get_song [] [(''station'', ''10'')] \<and>
   get_song [] [(''other'', ''1'')] = (JObj [(''error'', JStr ''Missing station parameter'')], 400) \<and>
   get_song [] [(''station'', ''2'')] = (JObj [(''error'', JStr ''Station 2 not found'')], 404)"
proof -
  let ?c = "[(10, \<lparr>name = ''x'', frequencies = [440], durations = [100]\<rparr>)]"
  have a1: "args_get [(''station'', ''10'')] ''station'' py_int = Some 10"
    and a2: "args_get [(''other'', ''1'')] ''station'' py_int = None"
    and a3: "args_get [(''station'', ''2'')] ''station'' py_int = Some 2"
    by (simp_all add: station_arg_eval)
  have s2: "str_int 2 = ''2''"
    by (simp add: str_int_def str_nat.simps digit_char_def char_of_eq_iff)
  from get_song_validation_order [where a = "[(''station'', ''10'')]" and i = 10 and songs = ?c and songs' = "[]"]
    get_song_validation_order [where a = "[(''other'', ''1'')]" and i = 0 and songs = "[]" and songs' = "[]"]
    get_song_validation_order [where a = "[(''station'', ''2'')]" and i = 2 and songs = "[]" and songs' = "[]"]
    a1 a2 a3 s2
  show ?thesis by auto
qed

section \<open>The success payload\<close>

text \<open>
  Claim C4. When the song lookup succeeds, the argument reads as a station number between
  0 and 9 that the catalog has, and the body is an object of exactly the two fields
  \<^verbatim>\<open>frequencies\<close> and \<^verbatim>\<open>durations\<close>, holding the stored lists element for element in
  order; there is no \<^verbatim>\<open>name\<close> field, and the catalog after the request is the catalog
  before it.
\<close>

theorem get_song_success_payload:
  assumes "snd (get_song songs a) = 200"
  shows "\<exists>i s. args_get a ''station'' py_int = Some i \<and> 0 \<le> i \<and> i \<le> 9 \<and>
           map_of songs i = Some s \<and>
           get_song songs a =
             (JObj [(''frequencies'', JList (map JInt (frequencies s))),
                    (''durations'', JList (map JInt (durations s)))], 200) \<and>
           json_keys (fst (get_song songs a)) = [''frequencies'', ''durations''] \<and>
           json_get (fst (get_song songs a)) ''name'' = None \<and>
           dispatch (GetSong a) songs = (get_song songs a, songs)"
proof -
  from assms obtain i where i: "args_get a ''station'' py_int = Some i"
    by (cases "args_get a ''station'' py_int") (simp_all add: get_song_status)
  from assms i have r: "0 \<le> i" "i \<le> 9"
    by (auto simp: get_song_status split: if_splits)
  from assms i r obtain s where s: "map_of songs i = Some s"
    by (cases "map_of songs i") (simp_all add: get_song_status)
  have "get_song songs a =
          (JObj [(''frequencies'', JList (map JInt (frequencies s))),
                 (''durations'', JList (map JInt (durations s)))], 200)"
    by (rule get_song_found [OF i r s])
  then show ?thesis
    using i r s by (simp add: json_keys_def json_get_def dispatch_def)
qed

theorem get_song_success_payload_witness:
  "snd (get_song SONGS [(''station'', ''0'')]) = 200 \<and>
   (\<exists>i s. args_get [(''station'', ''0'')] ''station'' py_int = Some i \<and> 0 \<le> i \<and> i \<le> 9 \<and>
      map_of SONGS i = Some s \<and>
      get_song SONGS [(''station'', ''0'')] =
        (JObj [(''frequencies'', JList (map JInt (frequencies s))),
               (''durations'', JList (map JInt (durations s)))], 200) \<and>
      json_keys (fst (get_song SONGS [(''station'', ''0'')])) = [''frequencies'', ''durations''] \<and>
      json_get (fst (get_song SONGS [(''station'', ''0'')])) ''name'' = None \<and>
      dispatch (GetSong [(''station'', ''0'')]) SONGS = (get_song SONGS [(''station'', ''0'')], SONGS))"
proof -
  have ok: "snd (get_song SONGS [(''station'', ''0'')]) = 200"
    by (simp add: get_song_status station_arg_eval SONGS_def)
  from get_song_success_payload [OF ok] ok show ?thesis by blast
qed

section \<open>The station list\<close>

text \<open>
  Claim C5. The station list always answers with status 200. Its keys are the decimal
  texts of the catalog's station numbers; under the text of a station number stands an
  object with only that station's name, and every entry of the answer arises so. The empty
  catalog gives the empty object. For the default catalog the keys are
  \<^verbatim>\<open>"0"\<close> to \<^verbatim>\<open>"9"\<close>, ten of them, each with a name that is not empty.
\<close>

theorem list_stations_mapping:
  "snd (list_stations songs) = 200 \<and>
   json_keys (fst (list_stations songs)) = map (\<lambda>(i, s). str_int i) songs \<and>
   json_get (fst (list_stations songs)) (str_int i) =
     map_option (\<lambda>s. JObj [(''name'', JStr (name s))]) (map_of songs i) \<and>
   (json_get (fst (list_stations songs)) key = Some v \<longrightarrow>
      (\<exists>n s. key = str_int n \<and> map_of songs n = Some s \<and> v = JObj [(''name'', JStr (name s))])) \<and>
   list_stations [] = (JObj [], 200) \<and>
   json_keys (fst (list_stations SONGS)) = map (\<lambda>c. [c]) ''0123456789'' \<and>
   length (json_keys (fst (list_stations SONGS))) = 10 \<and>
   (\<forall>k\<in>set (json_keys (fst (list_stations SONGS))).
      \<exists>nm. json_get (fst (list_stations SONGS)) k = Some (JObj [(''name'', JStr nm)]) \<and> nm \<noteq> [])"
proof (intro conjI)
  show "snd (list_stations songs) = 200"
    by (simp add: list_stations_def)
  show "json_keys (fst (list_stations songs)) = map (\<lambda>(i, s). str_int i) songs"
    by (rule list_stations_keys)
  show "json_get (fst (list_stations songs)) (str_int i) =
     map_option (\<lambda>s. JObj [(''name'', JStr (name s))]) (map_of songs i)"
    by (rule list_stations_get)
  show "json_get (fst (list_stations songs)) key = Some v \<longrightarrow>
      (\<exists>n s. key = str_int n \<and> map_of songs n = Some s \<and> v = JObj [(''name'', JStr (name s))])"
  proof
    assume get: "json_get (fst (list_stations songs)) key = Some v"
    then have "key \<in> set (json_keys (fst (list_stations songs)))"
      by (rule json_get_in_keys)
    then obtain n where n: "key = str_int n"
      by (auto simp: list_stations_keys)
    from get have "map_option (\<lambda>s. JObj [(''name'', JStr (name s))]) (map_of songs n) = Some v"
      by (simp add: n list_stations_get)
    then obtain s where "map_of songs n = Some s" "v = JObj [(''name'', JStr (name s))]"
      by (cases "map_of songs n") auto
    with n show "\<exists>n s. key = str_int n \<and> map_of songs n = Some s \<and> v = JObj [(''name'', JStr (name s))]"
      by blast
  qed
  show "list_stations [] = (JObj [], 200)"
    by (simp add: list_stations_def stations_info_def)
  show "json_keys (fst (list_stations SONGS)) = map (\<lambda>c. [c]) ''0123456789''"
    by (simp add: list_stations_SONGS json_keys_def)
  show "length (json_keys (fst (list_stations SONGS))) = 10"
    by (simp add: list_stations_SONGS json_keys_def)
  show "\<forall>k\<in>set (json_keys (fst (list_stations SONGS))).
      \<exists>nm. json_get (fst (list_stations SONGS)) k = Some (JObj [(''name'', JStr nm)]) \<and> nm \<noteq> []"
    by (simp add: list_stations_SONGS json_keys_def json_get_def)
qed

theorem list_stations_mapping_witness:
  "json_get (fst (list_stations SONGS)) ''3'' = Some (JObj [(''name'', JStr ''Jingle Bells'')]) \<and>
   ''3'' \<in> set (json_keys (fst (list_stations SONGS))) \<and>
   (\<exists>nm. json_get (fst (list_stations SONGS)) ''3'' = Some (JObj [(''name'', JStr nm)]) \<and> nm \<noteq> []) \<and>
   (\<exists>n s. ''3'' = str_int n \<and> map_of SONGS n = Some s \<and>
      JObj [(''name'', JStr ''Jingle Bells'')] = JObj [(''name'', JStr (name s))])"
proof -
  note m = list_stations_mapping [where songs = SONGS and i = 3 and key = "''3''"
      and v = "JObj [(''name'', JStr ''Jingle Bells'')]"]
  have three: "str_int 3 = ''3''"
    by (rule str_int_digits)
  have look: "map_of SONGS 3 = Some \<lparr>name = ''Jingle Bells'',
      frequencies = [330, 330, 330, 330, 330, 330, 330, 392, 262, 294, 330, 349, 349, 349, 349, 349, 330, 330, 330, 294, 294, 330, 294, 392],
      durations = [500, 500, 1000, 500, 500, 1000, 500, 500, 500, 500, 2000, 500, 500, 500, 500, 500, 500, 500, 250, 250, 500, 500, 500, 500]\<rparr>"
    by (simp add: SONGS_def)
  from m have get: "json_get (fst (list_stations SONGS)) ''3'' = Some (JObj [(''name'', JStr ''Jingle Bells'')])"
    by (simp add: three look)
  from m have "json_keys (fst (list_stations SONGS)) =
      map (\<lambda>c. [c]) ''0123456789''"
    by (elim conjE)
  then have mem: "''3'' \<in> set (json_keys (fst (list_stations SONGS)))"
    by simp
  from m have "\<forall>k\<in>set (json_keys (fst (list_stations SONGS))).
      \<exists>nm. json_get (fst (list_stations SONGS)) k = Some (JObj [(''name'', JStr nm)]) \<and> nm \<noteq> []"
    by (elim conjE)
  then have nm: "\<exists>nm. json_get (fst (list_stations SONGS)) ''3'' = Some (JObj [(''name'', JStr nm)]) \<and> nm \<noteq> []"
    using mem by (rule bspec)
  from m have "json_get (fst (list_stations SONGS)) ''3'' = Some (JObj [(''name'', JStr ''Jingle Bells'')]) \<longrightarrow>
      (\<exists>n s. ''3'' = str_int n \<and> map_of SONGS n = Some s \<and>
         JObj [(''name'', JStr ''Jingle Bells'')] = JObj [(''name'', JStr (name s))])"
    by (elim conjE)
  with get have "\<exists>n s. ''3'' = str_int n \<and> map_of SONGS n = Some s \<and>
      JObj [(''name'', JStr ''Jingle Bells'')] = JObj [(''name'', JStr (name s))]"
    by (rule rev_mp)
  with get mem nm show ?thesis by (intro conjI)
qed

section \<open>The health check\<close>

text \<open>
  Claim C6. The health check always answers with status 200, the fixed status
  \<^verbatim>\<open>ok\<close> and the number of entries of the catalog, which for a dictionary (distinct
  keys) is the number of its keys; for the default catalog the answer is
  \<^verbatim>\<open>{"status": "ok", "stations": 10}\<close>.
\<close>

theorem health_status_count:
  "health songs =
     (JObj [(''status'', JStr ''ok''), (''stations'', JInt (int (length songs)))], 200) \<and>
   (distinct (map fst songs) \<longrightarrow>
      json_get (fst (health songs)) ''stations'' = Some (JInt (int (card (dom (map_of songs)))))) \<and>
   health SONGS = (JObj [(''status'', JStr ''ok''), (''stations'', JInt 10)], 200)"
proof (intro conjI impI)
  show "health songs =
     (JObj [(''status'', JStr ''ok''), (''stations'', JInt (int (length songs)))], 200)"
    by (simp add: health_def)
  show "json_get (fst (health songs)) ''stations'' = Some (JInt (int (card (dom (map_of songs)))))"
    if "distinct (map fst songs)"
  proof -
    have "card (dom (map_of songs)) = card (set (map fst songs))"
      by (simp add: dom_map_of_conv_image_fst)
    also have "\<dots> = length songs"
      using that distinct_card [of "map fst songs"] by simp
    finally show ?thesis
      by (simp add: health_def json_get_def)
  qed
  show "health SONGS = (JObj [(''status'', JStr ''ok''), (''stations'', JInt 10)], 200)"
    by (simp add: health_def SONGS_def)
qed

theorem health_status_count_witness:
  "distinct (map fst SONGS) \<and>
   json_get (fst (health SONGS)) ''stations'' = Some (JInt (int (card (dom (map_of SONGS))))) \<and>
   health SONGS = (JObj [(''status'', JStr ''ok''), (''stations'', JInt 10)], 200) \<and>
   health [] = (JObj [(''status'', JStr ''ok''), (''stations'', JInt 0)], 200)"
  using health_status_count [of SONGS] health_status_count [of "[]"] SONGS_distinct
  by simp

section \<open>Stations 0 and 4 of the default catalog\<close>

text \<open>
  Claim C7. With the default catalog, the request \<^verbatim>\<open>/song?station=0\<close> is answered
  with the C major scale, eight notes of 500 ms. The request \<^verbatim>\<open>/song?station=4\<close>
  is answered with a frequency list as long as the stored one that agrees with it at every
  position; the stored list contains rests, and each rest appears as 0 at its position.
\<close>

theorem get_song_station_0_and_4:
  "get_song SONGS [(''station'', ''0'')] =
     (JObj [(''frequencies'',
             JList [JInt 262, JInt 294, JInt 330, JInt 349, JInt 392, JInt 440, JInt 494, JInt 523]),
            (''durations'',
             JList [JInt 500, JInt 500, JInt 500, JInt 500, JInt 500, JInt 500, JInt 500, JInt 500])],
      200) \<and>
   (\<exists>s fs. map_of SONGS 4 = Some s \<and> 0 \<in> set (frequencies s) \<and>
      get_song SONGS [(''station'', ''4'')] =
        (JObj [(''frequencies'', JList fs),
               (''durations'', JList (map JInt (durations s)))], 200) \<and>
      length fs = length (frequencies s) \<and>
      (\<forall>k<length (frequencies s). fs ! k = JInt (frequencies s ! k)) \<and>
      (\<forall>k<length (frequencies s). frequencies s ! k = 0 \<longrightarrow> fs ! k = JInt 0))"
proof (intro conjI)
  have a0: "args_get [(''station'', ''0'')] ''station'' py_int = Some 0"
    by (simp add: station_arg_eval)
  have "map_of SONGS 0 = Some \<lparr>name = ''C Major Scale'',
      frequencies = [262, 294, 330, 349, 392, 440, 494, 523],
      durations = [500, 500, 500, 500, 500, 500, 500, 500]\<rparr>"
    by (simp add: SONGS_def)
  from get_song_found [OF a0 _ _ this]
  show "get_song SONGS [(''station'', ''0'')] =
     (JObj [(''frequencies'',
             JList [JInt 262, JInt 294, JInt 330, JInt 349, JInt 392, JInt 440, JInt 494, JInt 523]),
            (''durations'',
             JList [JInt 500, JInt 500, JInt 500, JInt 500, JInt 500, JInt 500, JInt 500, JInt 500])],
      200)"
    by simp
next
  have a4: "args_get [(''station'', ''4'')] ''station'' py_int = Some 4"
    by (simp add: station_arg_eval)
  obtain s where s: "map_of SONGS 4 = Some s" and z: "0 \<in> set (frequencies s)"
    using SONGS_station_4 by simp
  have "get_song SONGS [(''station'', ''4'')] =
        (JObj [(''frequencies'', JList (map JInt (frequencies s))),
               (''durations'', JList (map JInt (durations s)))], 200)"
    by (rule get_song_found [OF a4 _ _ s]) simp_all
  moreover have "length (map JInt (frequencies s)) = length (frequencies s)"
    by simp
  moreover have "\<forall>k<length (frequencies s). map JInt (frequencies s) ! k = JInt (frequencies s ! k)"
    by simp
  moreover have "\<forall>k<length (frequencies s). frequencies s ! k = 0 \<longrightarrow>
      map JInt (frequencies s) ! k = JInt 0"
    by simp
  ultimately show "\<exists>s fs. map_of SONGS 4 = Some s \<and> 0 \<in> set (frequencies s) \<and>
      get_song SONGS [(''station'', ''4'')] =
        (JObj [(''frequencies'', JList fs),
               (''durations'', JList (map JInt (durations s)))], 200) \<and>
      length fs = length (frequencies s) \<and>
      (\<forall>k<length (frequencies s). fs ! k = JInt (frequencies s ! k)) \<and>
      (\<forall>k<length (frequencies s). frequencies s ! k = 0 \<longrightarrow> fs ! k = JInt 0)"
    using s z by blast
qed

theorem get_song_station_0_and_4_witness:
  "\<exists>fs ds. get_song SONGS [(''station'', ''4'')] =
      (JObj [(''frequencies'', JList fs), (''durations'', JList ds)], 200) \<and>
    length fs = 43 \<and> fs ! 0 = JInt 659 \<and> fs ! 2 = JInt 0 \<and> fs ! 4 = JInt 0 \<and> fs ! 41 = JInt 0"
proof -
  from get_song_station_0_and_4 obtain s fs where
    s: "map_of SONGS 4 = Some s" and
    g: "get_song SONGS [(''station'', ''4'')] =
        (JObj [(''frequencies'', JList fs), (''durations'', JList (map JInt (durations s)))], 200)" and
    l: "length fs = length (frequencies s)" and
    e: "\<forall>k<length (frequencies s). fs ! k = JInt (frequencies s ! k)"
    by blast
  from s have f: "frequencies s = [659, 659, 0, 659, 0, 523, 659, 0, 784, 0, 392, 0, 523, 0, 392, 0, 330, 0, 440, 0, 494, 0, 466, 0, 392, 0, 659, 0, 784, 0, 880, 0, 698, 0, 784, 0, 659, 0, 523, 0, 587, 0, 494]"
    by (auto simp: SONGS_station_4)
  have "length fs = 43"
    using l by (simp add: f)
  moreover have "fs ! 0 = JInt 659" "fs ! 2 = JInt 0" "fs ! 4 = JInt 0" "fs ! 41 = JInt 0"
    using e by (simp_all add: f)
  ultimately show ?thesis using g by blast
qed

section \<open>Determinism of the song lookup\<close>

text \<open>
  Claim C8. The song lookup depends on nothing but the station it is asked for and the
  catalog: two requests whose \<^verbatim>\<open>station\<close> arguments read the same (both absent or
  unreadable, or both the same integer) get the same status and body on the same catalog,
  whatever else the requests carry, and so the same text from whatever encoder writes the
  body. Running the handler leaves the catalog as it was, so running it again gives the
  same response. And in any sequence of requests, whatever is served in between, two such
  lookups get the same response, the one a single lookup gets on the initial catalog, and
  the catalog after the sequence is the initial one.
\<close>

theorem get_song_deterministic:
  "(args_get a ''station'' py_int = args_get b ''station'' py_int \<longrightarrow>
      fst (run_state (get_song_st a) songs) = fst (run_state (get_song_st b) songs) \<and>
      (\<forall>enc :: json \<Rightarrow> string.
         enc (fst (fst (run_state (get_song_st a) songs))) =
         enc (fst (fst (run_state (get_song_st b) songs))))) \<and>
   snd (run_state (get_song_st a) songs) = songs \<and>
   run_state (get_song_st a) (snd (run_state (get_song_st a) songs)) =
     run_state (get_song_st a) songs \<and>
   snd (serve rs songs) = songs \<and>
   (m < length rs \<and> n < length rs \<and> rs ! m = GetSong a \<and> rs ! n = GetSong b \<and>
    args_get a ''station'' py_int = args_get b ''station'' py_int \<longrightarrow>
      fst (serve rs songs) ! m = fst (run_state (get_song_st a) songs) \<and>
      fst (serve rs songs) ! n = fst (serve rs songs) ! m)"
proof (intro conjI impI)
  assume "args_get a ''station'' py_int = args_get b ''station'' py_int"
  then have "get_song songs a = get_song songs b"
    by (rule get_song_same_station)
  then show same_response:
    "fst (run_state (get_song_st a) songs) = fst (run_state (get_song_st b) songs)"
    by (simp add: get_song_st_run)
  show "\<forall>enc :: json \<Rightarrow> string.
      enc (fst (fst (run_state (get_song_st a) songs))) =
      enc (fst (fst (run_state (get_song_st b) songs)))"
    by (simp add: same_response)
next
  show unchanged: "snd (run_state (get_song_st a) songs) = songs"
    by (simp add: get_song_st_run)
  show "run_state (get_song_st a) (snd (run_state (get_song_st a) songs)) =
      run_state (get_song_st a) songs"
    by (simp add: unchanged)
  show "snd (serve rs songs) = songs"
    by (simp add: serve_responses)
next
  assume h: "m < length rs \<and> n < length rs \<and> rs ! m = GetSong a \<and> rs ! n = GetSong b \<and>
    args_get a ''station'' py_int = args_get b ''station'' py_int"
  then have "args_get a ''station'' py_int = args_get b ''station'' py_int"
    by (elim conjE)
  then have same: "get_song songs a = get_song songs b"
    by (rule get_song_same_station)
  from h have at_m: "fst (serve rs songs) ! m = get_song songs a"
    by (simp add: serve_responses handle_def get_song_st_run)
  from h have at_n: "fst (serve rs songs) ! n = get_song songs b"
    by (simp add: serve_responses handle_def get_song_st_run)
  from at_m show "fst (serve rs songs) ! m = fst (run_state (get_song_st a) songs)"
    by (simp add: get_song_st_run)
  from at_m at_n same show "fst (serve rs songs) ! n = fst (serve rs songs) ! m"
    by simp
qed

theorem get_song_deterministic_witness:
  "args_get [(''station'', ''3'')] ''station'' py_int =
     args_get [(''volume'', ''11''), (''station'', '' +3''), (''station'', ''7'')] ''station'' py_int \<and>
   fst (run_state (get_song_st [(''station'', ''3'')]) SONGS) =
     fst (run_state
       (get_song_st [(''volume'', ''11''), (''station'', '' +3''), (''station'', ''7'')]) SONGS) \<and>
   snd (run_state (get_song_st [(''station'', ''3'')]) SONGS) = SONGS \<and>
   fst (serve [GetSong [(''station'', ''3'')], Health, ListStations,
               GetSong [(''volume'', ''11''), (''station'', '' +3''), (''station'', ''7'')]] SONGS) ! 3 =
   fst (serve [GetSong [(''station'', ''3'')], Health, ListStations,
               GetSong [(''volume'', ''11''), (''station'', '' +3''), (''station'', ''7'')]] SONGS) ! 0 \<and>
   snd (serve [GetSong [(''station'', ''3'')], Health, ListStations,
               GetSong [(''volume'', ''11''), (''station'', '' +3''), (''station'', ''7'')]] SONGS) = SONGS"
proof -
  let ?a = "[(''station'', ''3'')]"
  let ?b = "[(''volume'', ''11''), (''station'', '' +3''), (''station'', ''7'')]"
  let ?rs = "[GetSong ?a, Health, ListStations, GetSong ?b]"
  have same: "args_get ?a ''station'' py_int = args_get ?b ''station'' py_int"
    by (simp add: station_arg_eval)
  have pos: "0 < length ?rs \<and> 3 < length ?rs \<and> ?rs ! 0 = GetSong ?a \<and> ?rs ! 3 = GetSong ?b"
    by simp
  note d = get_song_deterministic [where a = ?a and b = ?b and songs = SONGS and rs = ?rs
      and m = 0 and n = 3]
  from d same have r1: "fst (run_state (get_song_st ?a) SONGS) = fst (run_state (get_song_st ?b) SONGS)"
    by (elim conjE) blast
  from d have r2: "snd (run_state (get_song_st ?a) SONGS) = SONGS"
    by (elim conjE)
  from d have r3: "snd (serve ?rs SONGS) = SONGS"
    by (elim conjE)
  from d pos same have r4: "fst (serve ?rs SONGS) ! 3 = fst (serve ?rs SONGS) ! 0"
    by (elim conjE) blast
  from same r1 r2 r4 r3 show ?thesis
    by (intro conjI)
qed

section \<open>The not-found branch\<close>

text \<open>
  Claim C9. If the catalog has an entry for every station number from 0 to 9, no request
  is answered with status 404, and in particular none with a
  \<^verbatim>\<open>Station n not found\<close> message. The default catalog is such a catalog.
\<close>

theorem get_song_never_not_found:
  assumes "\<forall>i. 0 \<le> i \<and> i \<le> 9 \<longrightarrow> map_of songs i \<noteq> None"
  shows "snd (get_song songs a) \<noteq> 404 \<and>
         get_song songs a \<noteq> (JObj [(''error'', JStr (''Station '' @ str_int n @ '' not found''))], 404)"
proof -
  have "snd (get_song songs a) \<noteq> 404"
  proof (cases "args_get a ''station'' py_int")
    case None
    then show ?thesis by (simp add: get_song_status)
  next
    case (Some i)
    show ?thesis
    proof (cases "i < 0 \<or> 9 < i")
      case True
      with Some show ?thesis by (simp add: get_song_status)
    next
      case False
      then have "0 \<le> i \<and> i \<le> 9" by simp
      with assms have "map_of songs i \<noteq> None" by blast
      then obtain s where "map_of songs i = Some s" by blast
      with Some False show ?thesis by (simp add: get_song_status)
    qed
  qed
  then show ?thesis by auto
qed

theorem get_song_never_not_found_witness:
  "\<forall>a n. snd (get_song SONGS a) \<noteq> 404 \<and>
     get_song SONGS a \<noteq> (JObj [(''error'', JStr (''Station '' @ str_int n @ '' not found''))], 404)"
proof (intro allI)
  fix a n
  have "\<forall>i. 0 \<le> i \<and> i \<le> 9 \<longrightarrow> map_of SONGS i \<noteq> None"
    using SONGS_lookup by fastforce
  then show "snd (get_song SONGS a) \<noteq> 404 \<and>
     get_song SONGS a \<noteq> (JObj [(''error'', JStr (''Station '' @ str_int n @ '' not found''))], 404)"
    by (rule get_song_never_not_found)
qed

section \<open>Consistency of the three endpoints\<close>

text \<open>
  Claim C10. For a request whose argument reads as the integer \<open>i\<close>, the song lookup
  succeeds exactly when \<open>i\<close> lies between 0 and 9 and its decimal text is a key of the
  station list. The count reported by the health check is the number of entries of the
  station list, and these entries have distinct keys when the catalog has.
\<close>

theorem endpoints_consistent:
  "(args_get a ''station'' py_int = Some i \<longrightarrow>
      (snd (get_song songs a) = 200 \<longleftrightarrow>
         0 \<le> i \<and> i \<le> 9 \<and> str_int i \<in> set (json_keys (fst (list_stations songs))))) \<and>
   json_get (fst (health songs)) ''stations'' =
     Some (JInt (int (length (json_keys (fst (list_stations songs)))))) \<and>
   (distinct (map fst songs) \<longrightarrow> distinct (json_keys (fst (list_stations songs))))"
proof (intro conjI impI)
  assume arg: "args_get a ''station'' py_int = Some i"
  have "str_int i \<in> set (json_keys (fst (list_stations songs))) \<longleftrightarrow> map_of songs i \<noteq> None"
  proof -
    have "str_int i \<in> set (json_keys (fst (list_stations songs))) \<longleftrightarrow> i \<in> fst ` set songs"
      by (auto simp: list_stations_keys dest: str_int_inject intro: rev_image_eqI)
    then show ?thesis
      by (simp add: map_of_eq_None_iff)
  qed
  then show "snd (get_song songs a) = 200 \<longleftrightarrow>
      0 \<le> i \<and> i \<le> 9 \<and> str_int i \<in> set (json_keys (fst (list_stations songs)))"
    using arg by (auto simp: get_song_status split: option.splits)
next
  show "json_get (fst (health songs)) ''stations'' =
     Some (JInt (int (length (json_keys (fst (list_stations songs))))))"
    by (simp add: health_def json_get_def list_stations_keys)
next
  assume d: "distinct (map fst songs)"
  have "json_keys (fst (list_stations songs)) = map str_int (map fst songs)"
    by (simp add: list_stations_keys case_prod_unfold)
  moreover have "inj_on str_int (set (map fst songs))"
    by (rule inj_onI) (rule str_int_inject)
  then have "distinct (map str_int (map fst songs))"
    using d by (subst distinct_map) (rule conjI)
  ultimately show "distinct (json_keys (fst (list_stations songs)))"
    by (rule ssubst)
qed

theorem endpoints_consistent_witness:
  "snd (get_song SONGS [(''station'', ''7'')]) = 200 \<and>
   str_int 7 \<in> set (json_keys (fst (list_stations SONGS))) \<and>
   snd (get_song [] [(''station'', ''7'')]) \<noteq> 200 \<and>
   str_int 7 \<notin> set (json_keys (fst (list_stations []))) \<and>
   distinct (json_keys (fst (list_stations SONGS)))"
proof -
  have arg: "args_get [(''station'', ''7'')] ''station'' py_int = Some 7"
    by (simp add: station_arg_eval)
  have k: "str_int 7 \<in> set (json_keys (fst (list_stations SONGS)))"
    by (simp add: list_stations_SONGS json_keys_def str_int_digits)
  have e: "str_int 7 \<notin> set (json_keys (fst (list_stations [])))"
    by (simp add: list_stations_keys)
  from endpoints_consistent [where a = "[(''station'', ''7'')]" and i = 7 and songs = SONGS]
    endpoints_consistent [where a = "[(''station'', ''7'')]" and i = 7 and songs = "[]"]
    arg k e SONGS_distinct
  show ?thesis by simp
qed

end
